theory Spec2Isabelle
  imports Main
begin

section \<open>Data model of src/context/AuthContext.tsx\<close>

text \<open>
  The \<open>User\<close> object built by the provider (the object literals at lines 77-83, 124-130
  and 168-174 of the source; the type itself is declared in \<open>../types\<close>).
\<close>

record User =
  user_id :: string
  username :: string
  password :: string
  isAdmin :: bool
  createdAt :: string

text \<open>
  What the backend hands over: a session carries an access token and a user, the user an
  id, an optional e-mail address and a creation date. The source tests \<open>session\<close> and
  \<open>session.user\<close> for truthiness, so both can be missing; \<open>email\<close> and
  \<open>created_at\<close> are read through \<open>||\<close>, so they can be missing or empty.
\<close>

record SessionUser =
  su_id :: string
  email :: "string option"
  created_at :: "string option"

record Session =
  user :: "SessionUser option"
  access_token :: string

datatype AuthError = AuthError (message: string)

text \<open>
  The destructured result \<open>{ data: { session }, error }\<close> of \<open>getSession\<close> and
  \<open>signInWithPassword\<close>.
\<close>

record AuthResponse =
  session :: "Session option"
  error :: "AuthError option"

text \<open>
  A value caught by \<open>catch (error)\<close>: an instance of \<open>Error\<close> with its message, or
  anything else.
\<close>

datatype thrown = Error_instance string | Other_value

text \<open>
  \<open>withAuthRetry\<close> lives in \<open>../utils/supabaseRetry\<close>, outside this file. An awaited
  call of it either resolves to the value of the wrapped operation or rejects; the outcome
  is a parameter of every operation below.
\<close>

datatype 'a outcome = Resolved 'a | Rejected thrown

text \<open>The five \<open>useState\<close> cells of \<open>AuthProvider\<close> (lines 36-40).\<close>

record AuthState =
  currentUser :: "User option"
  authToken :: "string option"
  isLoading :: bool
  authError :: "string option"
  lastTokenRefresh :: int

definition initial_state :: AuthState where
  "initial_state =
     \<lparr>currentUser = None, authToken = None, isLoading = True, authError = None,
      lastTokenRefresh = 0\<rparr>"

section \<open>Building the user\<close>

text \<open>
  Strings are byte lists; the two accented letters of the messages are written as their
  UTF-8 bytes.
\<close>

definition a_tilde :: string where
  "a_tilde = [CHR 0xC3, CHR 0xA3]"

definition privileged_account :: string where
  "privileged_account = ''droweder@gmail.com''"

text \<open>\<open>x || fallback\<close> on a string that may be undefined.\<close>

definition or_else :: "string option \<Rightarrow> string \<Rightarrow> string" where
  "or_else x fallback =
     (case x of None \<Rightarrow> fallback | Some v \<Rightarrow> if v = [] then fallback else v)"

text \<open>
  The object literal of lines 77-83 (and its two copies). \<open>isoNow\<close> is the value of
  \<open>new Date().toISOString()\<close> at that moment.
\<close>

definition make_user :: "string \<Rightarrow> SessionUser \<Rightarrow> User" where
  "make_user isoNow u =
     \<lparr>user_id = su_id u,
      username = or_else (email u) [],
      password = [],
      isAdmin = (email u = Some privileged_account),
      createdAt = or_else (created_at u) isoNow\<rparr>"

text \<open>
  The three setter calls that follow it (lines 85-87); \<open>now\<close> is the value of
  \<open>Date.now()\<close>.
\<close>

definition set_session :: "int \<Rightarrow> string \<Rightarrow> SessionUser \<Rightarrow> string \<Rightarrow> AuthState \<Rightarrow> AuthState" where
  "set_session now isoNow u token s =
     s\<lparr>currentUser := Some (make_user isoNow u), authToken := Some token,
       lastTokenRefresh := now\<rparr>"

definition thrown_message :: "thrown \<Rightarrow> string" where
  "thrown_message t =
     (case t of Error_instance m \<Rightarrow> m | Other_value \<Rightarrow> ''Erro desconhecido'')"

definition connection_error :: "thrown \<Rightarrow> string" where
  "connection_error t = ''Erro de conex'' @ a_tilde @ ''o: '' @ thrown_message t"

section \<open>useAuth\<close>

text \<open>
  Lines 23-29. The argument is what \<open>useContext(AuthContext)\<close> returns: the value of
  the nearest provider, or the default \<open>undefined\<close>. A provided value is an object, hence
  truthy.
\<close>

definition useAuth :: "'ctx option \<Rightarrow> string + 'ctx" where
  "useAuth ctx =
     (case ctx of
        None \<Rightarrow> Inl ''useAuth must be used within an AuthProvider''
      | Some c \<Rightarrow> Inr c)"

section \<open>The session probe\<close>

text \<open>
  The body of the anonymous async function of lines 66-104, from the \<open>await\<close> of line 71
  on: the \<open>try\<close> with its two branches and the \<open>catch\<close>. The \<open>setAuthError(null)\<close>
  of line 69 runs before the call and is part of \<open>probe_begin\<close>.
\<close>

definition probe_begin :: "AuthState \<Rightarrow> AuthState" where
  "probe_begin s = s\<lparr>authError := None\<rparr>"

definition probe_settle :: "int \<Rightarrow> string \<Rightarrow> AuthResponse outcome \<Rightarrow> AuthState \<Rightarrow> AuthState" where
  "probe_settle now isoNow out s =
     (case out of
        Rejected t \<Rightarrow> s\<lparr>authError := Some (connection_error t)\<rparr>
      | Resolved r \<Rightarrow>
          (case (session r, error r) of
             (Some se, None) \<Rightarrow>
               (case user se of
                  Some u \<Rightarrow> set_session now isoNow u (access_token se) s
                | None \<Rightarrow> s)
           | (_, Some e) \<Rightarrow>
               s\<lparr>authError := Some (''Erro de sess'' @ a_tilde @ ''o: '' @ message e)\<rparr>
           | (None, None) \<Rightarrow> s))"

text \<open>The probe as one function of the outcome of the retried \<open>getSession\<close> call.\<close>

definition probe :: "int \<Rightarrow> string \<Rightarrow> AuthResponse outcome \<Rightarrow> AuthState \<Rightarrow> AuthState" where
  "probe now isoNow out s = probe_settle now isoNow out (probe_begin s)"

section \<open>login and logout\<close>

text \<open>Lines 151-188: the new state and the returned boolean.\<close>

definition login :: "int \<Rightarrow> string \<Rightarrow> AuthResponse outcome \<Rightarrow> AuthState \<Rightarrow> AuthState \<times> bool" where
  "login now isoNow out s =
     (let s1 = s\<lparr>authError := None\<rparr> in
      case out of
        Rejected t \<Rightarrow> (s1\<lparr>authError := Some (connection_error t)\<rparr>, False)
      | Resolved r \<Rightarrow>
          (case error r of
             Some e \<Rightarrow> (s1\<lparr>authError := Some (''Erro no login: '' @ message e)\<rparr>, False)
           | None \<Rightarrow>
               (case session r of
                  None \<Rightarrow> (s1, False)
                | Some se \<Rightarrow>
                    (case user se of
                       None \<Rightarrow> (s1, False)
                     | Some u \<Rightarrow> (set_session now isoNow u (access_token se) s1, True)))))"

text \<open>
  Lines 190-201. The value \<open>signOut\<close> resolves to is not read; the four setters run
  after the \<open>await\<close>, inside the \<open>try\<close>; the \<open>catch\<close> only logs.
\<close>

definition logout :: "(AuthError option) outcome \<Rightarrow> AuthState \<Rightarrow> AuthState" where
  "logout out s =
     (case out of
        Resolved _ \<Rightarrow>
          s\<lparr>authError := None, currentUser := None, authToken := None, lastTokenRefresh := 0\<rparr>
      | Rejected _ \<Rightarrow> s)"

section \<open>The initialisation guard\<close>

text \<open>
  The module-level variables of lines 7-10. \<open>sessionCheckPromise\<close> holds, when set, the
  index of the provider whose effect created the promise.
\<close>

record Guard =
  hasCheckedSession :: bool
  isCheckingSession :: bool
  sessionCheckPromise :: "nat option"
  hasInitialSessionChecked :: bool

definition initial_guard :: Guard where
  "initial_guard =
     \<lparr>hasCheckedSession = False, isCheckingSession = False, sessionCheckPromise = None,
      hasInitialSessionChecked = False\<rparr>"

text \<open>
  The three tests at the head of \<open>checkSession\<close> (lines 46, 52, 59), in the order of the
  source, and what the call does next.
\<close>

datatype entry = Skip_completed | Skip_in_flight | Await_shared | Start_probe

definition checkSession_entry :: "Guard \<Rightarrow> entry" where
  "checkSession_entry g =
     (if hasInitialSessionChecked g then Skip_completed
      else if isCheckingSession g then Skip_in_flight
      else if sessionCheckPromise g \<noteq> None then Await_shared
      else Start_probe)"

text \<open>
  The process: the guard, the mounted providers with their state, the number of retried
  \<open>getSession\<close> calls issued so far, and the providers whose \<open>checkSession\<close> is
  suspended at \<open>await sessionCheckPromise\<close> (lines 60 and 106).
\<close>

record World =
  guard :: Guard
  providers :: "AuthState list"
  fetches :: nat
  awaiting :: "nat list"

definition initial_world :: "nat \<Rightarrow> World" where
  "initial_world n =
     \<lparr>guard = initial_guard, providers = replicate n initial_state, fetches = 0,
      awaiting = []\<rparr>"

definition update_provider :: "nat \<Rightarrow> (AuthState \<Rightarrow> AuthState) \<Rightarrow> AuthState list \<Rightarrow> AuthState list" where
  "update_provider i f ps = (if i < length ps then ps[i := f (ps ! i)] else ps)"

definition stop_loading :: "AuthState \<Rightarrow> AuthState" where
  "stop_loading s = s\<lparr>isLoading := False\<rparr>"

text \<open>
  The event loop runs one turn at a time. \<open>Initialize i\<close> is the effect of provider
  \<open>i\<close> calling \<open>checkSession()\<close>, up to its first \<open>await\<close> or its \<open>return\<close>.
  \<open>Fetch_settles\<close> is the retried \<open>getSession\<close> call settling: the rest of the
  anonymous function with its \<open>finally\<close>, then the resumption of every suspended
  \<open>checkSession\<close>, which sets \<open>isLoading\<close> to false.
\<close>

datatype turn = Initialize nat | Fetch_settles int string "AuthResponse outcome"

definition initialize :: "nat \<Rightarrow> World \<Rightarrow> World" where
  "initialize i w =
     (if length (providers w) \<le> i then w
      else case checkSession_entry (guard w) of
        Skip_completed \<Rightarrow> w\<lparr>providers := update_provider i stop_loading (providers w)\<rparr>
      | Skip_in_flight \<Rightarrow> w\<lparr>providers := update_provider i stop_loading (providers w)\<rparr>
      | Await_shared \<Rightarrow> w\<lparr>awaiting := awaiting w @ [i]\<rparr>
      | Start_probe \<Rightarrow>
          w\<lparr>guard := (guard w)\<lparr>isCheckingSession := True, sessionCheckPromise := Some i\<rparr>,
            providers := update_provider i probe_begin (providers w),
            fetches := Suc (fetches w),
            awaiting := awaiting w @ [i]\<rparr>)"

definition fetch_settles :: "int \<Rightarrow> string \<Rightarrow> AuthResponse outcome \<Rightarrow> World \<Rightarrow> World" where
  "fetch_settles now isoNow out w =
     (if isCheckingSession (guard w) then
        (case sessionCheckPromise (guard w) of
           None \<Rightarrow> w
         | Some i \<Rightarrow>
             w\<lparr>guard := (guard w)\<lparr>isCheckingSession := False, sessionCheckPromise := None,
                                   hasInitialSessionChecked := True\<rparr>,
               providers :=
                 fold (\<lambda>j. update_provider j stop_loading) (awaiting w)
                   (update_provider i (probe_settle now isoNow out) (providers w)),
               awaiting := []\<rparr>)
      else w)"

fun turn_step :: "turn \<Rightarrow> World \<Rightarrow> World" where
  "turn_step (Initialize i) w = initialize i w"
| "turn_step (Fetch_settles now isoNow out) w = fetch_settles now isoNow out w"

fun run :: "turn list \<Rightarrow> World \<Rightarrow> World" where
  "run [] w = w"
| "run (t # ts) w = run ts (turn_step t w)"

section \<open>The change subscription and its timer\<close>

text \<open>
  The body of the timer callback of lines 118-141, for the session the notification
  carried. The event name is only logged.
\<close>

definition auth_change :: "int \<Rightarrow> string \<Rightarrow> Session option \<Rightarrow> AuthState \<Rightarrow> AuthState" where
  "auth_change now isoNow se s =
     (let s1 = s\<lparr>authError := None\<rparr> in
      case se of
        None \<Rightarrow> s1\<lparr>currentUser := None, authToken := None, lastTokenRefresh := 0\<rparr>
      | Some x \<Rightarrow>
          (case user x of
             None \<Rightarrow> s1\<lparr>currentUser := None, authToken := None, lastTokenRefresh := 0\<rparr>
           | Some u \<Rightarrow> set_session now isoNow u (access_token x) s1))"

text \<open>
  One provider with its subscription: its state, the variable
  \<open>authStateChangeTimeout\<close> (the pending timer, as its due time in milliseconds and the
  session its callback closes over) and a count of the callbacks that have run.
\<close>

record Subscriber =
  view :: AuthState
  authStateChangeTimeout :: "(int \<times> Session option) option"
  applied :: nat

text \<open>
  \<open>Notify t se\<close>: the backend's handler runs at time \<open>t\<close> with session \<open>se\<close>
  (\<open>clearTimeout\<close>, then \<open>setTimeout(..., 500)\<close>). \<open>Run_timers t isoNow\<close>: the event loop
  reaches its timer phase at time \<open>t\<close> and runs the callback if it is due.
\<close>

datatype tick = Notify int "Session option" | Run_timers int string

fun tick_time :: "tick \<Rightarrow> int" where
  "tick_time (Notify t _) = t"
| "tick_time (Run_timers t _) = t"

fun tick_step :: "tick \<Rightarrow> Subscriber \<Rightarrow> Subscriber" where
  "tick_step (Notify t se) c = c\<lparr>authStateChangeTimeout := Some (t + 500, se)\<rparr>"
| "tick_step (Run_timers t isoNow) c =
     (case authStateChangeTimeout c of
        None \<Rightarrow> c
      | Some (due, se) \<Rightarrow>
          if due \<le> t
          then c\<lparr>view := auth_change t isoNow se (view c), authStateChangeTimeout := None,
                 applied := Suc (applied c)\<rparr>
          else c)"

fun ticks :: "tick list \<Rightarrow> Subscriber \<Rightarrow> Subscriber" where
  "ticks [] c = c"
| "ticks (e # es) c = ticks es (tick_step e c)"

text \<open>The last notification of a trace, if it has one.\<close>

fun last_notify :: "tick list \<Rightarrow> (int \<times> Session option) option" where
  "last_notify [] = None"
| "last_notify (Notify t se # es) =
     (case last_notify es of None \<Rightarrow> Some (t, se) | Some r \<Rightarrow> Some r)"
| "last_notify (Run_timers _ _ # es) = last_notify es"

fun in_window :: "int \<Rightarrow> tick list \<Rightarrow> bool" where
  "in_window t0 [] = True"
| "in_window t0 (e # es) = (t0 \<le> tick_time e \<and> tick_time e < t0 + 500 \<and> in_window t0 es)"

section \<open>Concrete inputs\<close>

text \<open>A provider that holds a signed-in user.\<close>

definition logged_in :: AuthState where
  "logged_in =
     \<lparr>currentUser =
        Some \<lparr>user_id = ''u1'', username = ''a@b.com'', password = [], isAdmin = False,
              createdAt = ''2024-01-01T00:00:00.000Z''\<rparr>,
      authToken = Some ''tok'', isLoading = False, authError = None,
      lastTokenRefresh = 1000\<rparr>"

definition sample_user :: SessionUser where
  "sample_user = \<lparr>su_id = ''u1'', email = Some ''a@b.com'', created_at = Some ''2024''\<rparr>"

definition sample_session :: "string \<Rightarrow> Session" where
  "sample_session tok = \<lparr>user = Some sample_user, access_token = tok\<rparr>"

text \<open>A response that carries a session and an error at once.\<close>

definition session_with_error :: AuthResponse where
  "session_with_error =
     \<lparr>session = Some (sample_session ''tok''), error = Some (AuthError ''stale'')\<rparr>"

text \<open>Two providers; the first has started the probe, which has not settled.\<close>

definition probing_world :: World where
  "probing_world = run [Initialize 0] (initial_world 2)"

text \<open>Two providers; the probe of the first has settled, without a session.\<close>

definition settled_world :: World where
  "settled_world =
     run [Initialize 0, Fetch_settles 7 ''2024'' (Resolved \<lparr>session = None, error = None\<rparr>)]
       (initial_world 2)"

text \<open>Four calls on two providers, the probe settling before the last.\<close>

definition four_calls :: "turn list" where
  "four_calls =
     [Initialize 1, Initialize 0, Initialize 1, Fetch_settles 7 ''2024'' (Rejected Other_value),
      Initialize 0]"

text \<open>
  Five notifications between 1000 ms and 1499 ms, with one timer phase of the event loop
  in between.
\<close>

definition burst5 :: "tick list" where
  "burst5 =
     [Notify 1000 (Some (sample_session ''t1'')), Notify 1100 None, Run_timers 1150 ''2024'',
      Notify 1200 (Some (sample_session ''t3'')), Notify 1300 None,
      Notify 1499 (Some (sample_session ''t5''))]"

definition idle_subscriber :: Subscriber where
  "idle_subscriber =
     \<lparr>view = initial_state\<lparr>isLoading := False\<rparr>, authStateChangeTimeout = None, applied = 0\<rparr>"

section \<open>useAuth, login and logout\<close>

text \<open>
  C10. Outside a provider the context value is undefined and \<open>useAuth\<close> throws; inside
  one it returns the provided object.
\<close>

theorem useAuth_throws_outside_provider:
  "useAuth None = Inl ''useAuth must be used within an AuthProvider''
   \<and> useAuth (Some c) = Inr c"
  by (simp add: useAuth_def)

text \<open>
  C1, as stated, fails: when the retried \<open>signOut\<close> call throws, the setters of the
  \<open>try\<close> block are skipped, and a signed-in provider keeps its user, its token and its
  refresh time.
\<close>

theorem logout_keeps_state_when_signOut_throws:
  "currentUser (logout (Rejected (Error_instance ''network down'')) logged_in) \<noteq> None
   \<and> authToken (logout (Rejected (Error_instance ''network down'')) logged_in) = Some ''tok''
   \<and> lastTokenRefresh (logout (Rejected (Error_instance ''network down'')) logged_in) = 1000"
  by (simp add: logout_def logged_in_def)

text \<open>
  C1, amended. Whenever the retried \<open>signOut\<close> call returns, with or without an error
  in its result, \<open>logout\<close> clears \<open>currentUser\<close> and \<open>authToken\<close> and resets
  \<open>lastTokenRefresh\<close> to zero; when the call throws, the state is left as it was.
\<close>

theorem logout_clears_when_signOut_returns:
  "currentUser (logout (Resolved r) s) = None
   \<and> authToken (logout (Resolved r) s) = None
   \<and> lastTokenRefresh (logout (Resolved r) s) = 0
   \<and> logout (Rejected t) s = s"
  by (simp add: logout_def)

text \<open>
  C7. When the sign-in reports an error or throws, \<open>login\<close> returns false and the new
  state is the old one with \<open>authError\<close> set to the message; \<open>currentUser\<close>,
  \<open>authToken\<close> and \<open>lastTokenRefresh\<close> keep their values.
\<close>

theorem login_failure_sets_only_the_error:
  "login now isoNow (Rejected t) s = (s\<lparr>authError := Some (connection_error t)\<rparr>, False)
   \<and> login now isoNow (Resolved \<lparr>session = se, error = Some e\<rparr>) s
       = (s\<lparr>authError := Some (''Erro no login: '' @ message e)\<rparr>, False)"
  by (simp add: login_def)

text \<open>
  C8. When the sign-in returns a session with a user and no error, \<open>login\<close> returns
  true, \<open>authError\<close> is cleared, \<open>authToken\<close> is the session's access token,
  \<open>lastTokenRefresh\<close> is the time of the call, and \<open>currentUser\<close> is populated from
  the session's user field by field: its id, its e-mail address as the user name (empty
  when there is none), an empty password, the privilege flag, and its creation date (the
  current date when it is missing or empty).
\<close>

theorem login_success_populates_state:
  "login now isoNow
     (Resolved \<lparr>session = Some \<lparr>user = Some \<lparr>su_id = uid, email = mail, created_at = born\<rparr>,
                                access_token = tok\<rparr>,
                error = None\<rparr>) s
     = (s\<lparr>authError := None,
          currentUser :=
            Some \<lparr>user_id = uid,
                  username = (case mail of None \<Rightarrow> [] | Some m \<Rightarrow> m),
                  password = [],
                  isAdmin = (mail = Some ''droweder@gmail.com''),
                  createdAt =
                    (case born of
                       None \<Rightarrow> isoNow
                     | Some d \<Rightarrow> if d = [] then isoNow else d)\<rparr>,
          authToken := Some tok,
          lastTokenRefresh := now\<rparr>, True)"
  by (cases mail; cases born)
     (simp_all add: login_def set_session_def make_user_def or_else_def
        privileged_account_def)

section \<open>The probe and the privilege rule\<close>

text \<open>
  C3, as stated, fails: a session that comes with an error is not used. The probe of a
  fresh provider leaves \<open>currentUser\<close> and \<open>authToken\<close> absent.
\<close>

theorem probe_ignores_session_with_error:
  "currentUser (probe 5 ''2024'' (Resolved session_with_error) initial_state) = None
   \<and> authToken (probe 5 ''2024'' (Resolved session_with_error) initial_state) = None"
  by (simp add: probe_def probe_settle_def probe_begin_def initial_state_def
        session_with_error_def sample_session_def)

text \<open>
  C3, amended. When the session fetch returns an error, with or without a session beside
  it, the probe treats the error as fatal: \<open>currentUser\<close>, \<open>authToken\<close> and
  \<open>lastTokenRefresh\<close> keep their values, and \<open>authError\<close> becomes the session-error
  message.
\<close>

theorem probe_error_is_fatal:
  "probe now isoNow (Resolved \<lparr>session = se, error = Some e\<rparr>) s
     = s\<lparr>authError := Some (''Erro de sess'' @ a_tilde @ ''o: '' @ message e)\<rparr>"
  by (cases se) (simp_all add: probe_def probe_settle_def probe_begin_def)

text \<open>
  C6. After a successful session fetch the user is privileged exactly when the e-mail
  address of the account is \<open>droweder@gmail.com\<close>; the same holds after a successful
  login and after a change notification that carries a session.
\<close>

theorem privilege_iff_privileged_account:
  "map_option isAdmin
     (currentUser (probe now isoNow
        (Resolved \<lparr>session = Some \<lparr>user = Some u, access_token = tok\<rparr>, error = None\<rparr>) s))
     = Some (email u = Some ''droweder@gmail.com'')
   \<and> map_option isAdmin
     (currentUser (fst (login now isoNow
        (Resolved \<lparr>session = Some \<lparr>user = Some u, access_token = tok\<rparr>, error = None\<rparr>) s)))
     = Some (email u = Some ''droweder@gmail.com'')
   \<and> map_option isAdmin
     (currentUser (auth_change now isoNow (Some \<lparr>user = Some u, access_token = tok\<rparr>) s))
     = Some (email u = Some ''droweder@gmail.com'')"
  by (simp add: probe_def probe_settle_def probe_begin_def login_def auth_change_def
        set_session_def make_user_def privileged_account_def)

section \<open>Initialisation\<close>

text \<open>
  Once a probe has been started, no turn of the event loop issues another fetch, and the
  guard never returns to its idle state.
\<close>

lemma started_step:
  assumes "isCheckingSession (guard w) \<or> hasInitialSessionChecked (guard w)"
  shows "fetches (turn_step t w) = fetches w
         \<and> (isCheckingSession (guard (turn_step t w))
            \<or> hasInitialSessionChecked (guard (turn_step t w)))"
proof (cases t)
  case (Initialize i)
  with assms show ?thesis
    by (auto simp: initialize_def checkSession_entry_def)
next
  case (Fetch_settles now isoNow out)
  with assms show ?thesis
    by (auto simp: fetch_settles_def split: option.splits)
qed

lemma started_run:
  "isCheckingSession (guard w) \<or> hasInitialSessionChecked (guard w) \<Longrightarrow>
   fetches (run ts w) = fetches w"
proof (induction ts arbitrary: w)
  case Nil
  show ?case by simp
next
  case (Cons t ts)
  from started_step [OF Cons.prems, of t]
  have f: "fetches (turn_step t w) = fetches w"
    and g: "isCheckingSession (guard (turn_step t w))
            \<or> hasInitialSessionChecked (guard (turn_step t w))"
    by simp_all
  from Cons.IH [OF g] f show ?case by simp
qed

text \<open>
  From the idle guard, the first call by a mounted provider issues the one fetch; turns
  before it change nothing.
\<close>

lemma idle_run:
  assumes "guard w = initial_guard"
    and "Initialize i \<in> set ts"
    and "i < length (providers w)"
  shows "fetches (run ts w) = Suc (fetches w)"
  using assms
proof (induction ts arbitrary: w)
  case Nil
  then show ?case by simp
next
  case (Cons t ts)
  show ?case
  proof (cases t)
    case (Fetch_settles now isoNow out)
    with Cons.prems have same: "turn_step t w = w"
      by (simp add: fetch_settles_def initial_guard_def)
    from Cons.prems Fetch_settles have "Initialize i \<in> set ts" by auto
    with Cons.IH [of w] Cons.prems same show ?thesis by simp
  next
    case (Initialize j)
    show ?thesis
    proof (cases "j < length (providers w)")
      case False
      with Initialize have same: "turn_step t w = w"
        by (simp add: initialize_def)
      from Cons.prems Initialize False have "Initialize i \<in> set ts" by auto
      with Cons.IH [of w] Cons.prems same show ?thesis by simp
    next
      case True
      with Initialize Cons.prems(1)
      have f: "fetches (turn_step t w) = Suc (fetches w)"
        and g: "isCheckingSession (guard (turn_step t w))
                \<or> hasInitialSessionChecked (guard (turn_step t w))"
        by (simp_all add: initialize_def checkSession_entry_def initial_guard_def)
      from started_run [OF g, of ts] f show ?thesis by simp
    qed
  qed
qed

text \<open>
  In every reachable state the handle is set only while the in-flight flag is set, so the
  third test of \<open>checkSession\<close> (line 59) never succeeds: no call ever reaches
  \<open>await sessionCheckPromise\<close> at line 60.
\<close>

lemma handle_implies_flag_step:
  assumes "sessionCheckPromise (guard w) \<noteq> None \<longrightarrow> isCheckingSession (guard w)"
  shows "sessionCheckPromise (guard (turn_step t w)) \<noteq> None
         \<longrightarrow> isCheckingSession (guard (turn_step t w))"
proof (cases t)
  case (Initialize i)
  with assms show ?thesis
    by (auto simp: initialize_def checkSession_entry_def split: entry.splits)
next
  case (Fetch_settles now isoNow out)
  with assms show ?thesis
    by (auto simp: fetch_settles_def split: option.splits)
qed

lemma handle_implies_flag_run:
  "sessionCheckPromise (guard w) \<noteq> None \<longrightarrow> isCheckingSession (guard w) \<Longrightarrow>
   sessionCheckPromise (guard (run ts w)) \<noteq> None \<longrightarrow> isCheckingSession (guard (run ts w))"
proof (induction ts arbitrary: w)
  case Nil
  then show ?case by simp
next
  case (Cons t ts)
  from Cons.IH [OF handle_implies_flag_step [OF Cons.prems, of t]]
  show ?case by simp
qed

lemma await_branch_unreachable:
  "checkSession_entry (guard (run ts (initial_world n))) \<noteq> Await_shared"
proof -
  have "sessionCheckPromise (guard (initial_world n)) \<noteq> None
        \<longrightarrow> isCheckingSession (guard (initial_world n))"
    by (simp add: initial_world_def initial_guard_def)
  from handle_implies_flag_run [OF this, of ts]
  show ?thesis
    by (auto simp: checkSession_entry_def)
qed

text \<open>
  C4. However the calls of \<open>checkSession\<close> by the mounted providers and the settling of
  the fetch are interleaved, as soon as one provider has called it the process has issued
  exactly one retried \<open>getSession\<close> call, and it never issues another.
\<close>

theorem one_fetch_for_any_interleaving:
  assumes "Initialize i \<in> set ts" and "i < n"
  shows "fetches (run ts (initial_world n)) = 1"
proof -
  have "fetches (run ts (initial_world n)) = Suc (fetches (initial_world n))"
    using assms by (intro idle_run) (simp_all add: initial_world_def)
  then show ?thesis by (simp add: initial_world_def)
qed

theorem one_fetch_for_any_interleaving_witness:
  "Initialize 1 \<in> set four_calls \<and> (1::nat) < 2
   \<and> fetches (run four_calls (initial_world 2)) = 1"
  using one_fetch_for_any_interleaving [of 1 four_calls 2]
  by (simp add: four_calls_def)

text \<open>
  C5. Once \<open>hasInitialSessionChecked\<close> is true, a call of \<open>checkSession\<close> by a mounted
  provider issues no fetch, suspends on nothing, and changes nothing but that provider's
  \<open>isLoading\<close>, which becomes false.
\<close>

theorem initialize_after_probe_completed:
  assumes "hasInitialSessionChecked (guard w)" and "i < length (providers w)"
  shows "initialize i w
           = w\<lparr>providers := (providers w)[i := (providers w ! i)\<lparr>isLoading := False\<rparr>]\<rparr>
         \<and> fetches (initialize i w) = fetches w
         \<and> awaiting (initialize i w) = awaiting w"
  using assms
  by (simp add: initialize_def checkSession_entry_def update_provider_def stop_loading_def)

theorem initialize_after_probe_completed_witness:
  "hasInitialSessionChecked (guard settled_world)
   \<and> 1 < length (providers settled_world)
   \<and> fetches (initialize 1 settled_world) = 1
   \<and> awaiting (initialize 1 settled_world) = []
   \<and> isLoading (providers (initialize 1 settled_world) ! 1) = False"
proof -
  have h1: "hasInitialSessionChecked (guard settled_world)"
    by (simp add: settled_world_def initial_world_def initial_guard_def initialize_def
          fetch_settles_def checkSession_entry_def)
  have h2: "1 < length (providers settled_world)"
    by (simp add: settled_world_def initial_world_def initial_guard_def initialize_def
          fetch_settles_def checkSession_entry_def update_provider_def)
  have f: "fetches settled_world = 1" and a: "awaiting settled_world = []"
    by (simp_all add: settled_world_def initial_world_def initial_guard_def initialize_def
          fetch_settles_def checkSession_entry_def)
  from initialize_after_probe_completed [OF h1 h2] h1 h2 f a
  show ?thesis by simp
qed

text \<open>
  C2, on the code. The second provider calls \<open>checkSession\<close> while the probe of the
  first is in flight. No second fetch is issued, but the call does not suspend on the
  handle: only the first provider is awaiting it, and the second provider's
  \<open>isLoading\<close> is already false although the probe has not completed.
\<close>

theorem initialize_in_flight_does_not_await:
  "isCheckingSession (guard probing_world)
   \<and> checkSession_entry (guard probing_world) = Skip_in_flight
   \<and> fetches (initialize 1 probing_world) = fetches probing_world
   \<and> awaiting (initialize 1 probing_world) = [0]
   \<and> isLoading (providers (initialize 1 probing_world) ! 1) = False
   \<and> hasInitialSessionChecked (guard (initialize 1 probing_world)) = False"
  by (simp add: probing_world_def initialize_def checkSession_entry_def update_provider_def
        stop_loading_def initial_world_def initial_guard_def initial_state_def probe_begin_def)

section \<open>Debouncing of change notifications\<close>

lemma ticks_append: "ticks (xs @ ys) c = ticks ys (ticks xs c)"
  by (induction xs arbitrary: c) simp_all

text \<open>
  While every turn falls in the window that opens at \<open>t0\<close>, and no timer older than the
  window is pending, no callback runs: the trace only replaces the pending timer by that of
  its last notification.
\<close>

lemma ticks_in_window:
  assumes "in_window t0 tr"
    and "case authStateChangeTimeout c of None \<Rightarrow> True | Some (due, se) \<Rightarrow> t0 + 500 \<le> due"
  shows "ticks tr c =
           c\<lparr>authStateChangeTimeout :=
               (case last_notify tr of
                  None \<Rightarrow> authStateChangeTimeout c
                | Some (t, se) \<Rightarrow> Some (t + 500, se))\<rparr>"
  using assms
proof (induction tr arbitrary: c)
  case Nil
  show ?case by simp
next
  case (Cons e es)
  from Cons.prems(1) have win: "in_window t0 es"
    and lo: "t0 \<le> tick_time e" and hi: "tick_time e < t0 + 500"
    by simp_all
  show ?case
  proof (cases e)
    case (Notify t se)
    with lo have "case authStateChangeTimeout (tick_step e c) of
                    None \<Rightarrow> True | Some (due, se) \<Rightarrow> t0 + 500 \<le> due"
      by simp
    from Cons.IH [OF win this] Notify show ?thesis
      by (simp split: option.splits)
  next
    case (Run_timers t isoNow)
    with hi Cons.prems(2) have same: "tick_step e c = c"
      by (auto split: option.splits)
    from Cons.IH [OF win Cons.prems(2)] same Run_timers show ?thesis
      by simp
  qed
qed

text \<open>
  C9. A subscriber with no pending timer receives a burst of notifications, all within
  one window of 500 ms (timer phases of the event loop may fall in between). When the
  timers next run, 500 ms or more after the last notification, exactly one callback is
  applied; it is the update for the session of the last notification, and no timer is
  left pending, so none of the earlier notifications is ever applied.
\<close>

theorem debounce_applies_only_last_event:
  assumes "authStateChangeTimeout c = None"
    and "in_window t0 tr"
    and "last_notify tr = Some (t, se)"
    and "t + 500 \<le> tf"
  shows "ticks (tr @ [Run_timers tf isoNow]) c =
           c\<lparr>view := auth_change tf isoNow se (view c),
             authStateChangeTimeout := None,
             applied := Suc (applied c)\<rparr>"
proof -
  from assms(1) have "case authStateChangeTimeout c of
                        None \<Rightarrow> True | Some (due, se) \<Rightarrow> t0 + 500 \<le> due"
    by simp
  from ticks_in_window [OF assms(2) this] assms(3)
  have "ticks tr c = c\<lparr>authStateChangeTimeout := Some (t + 500, se)\<rparr>"
    by simp
  with assms(4) show ?thesis
    by (simp add: ticks_append)
qed

theorem debounce_applies_only_last_event_witness:
  "authStateChangeTimeout idle_subscriber = None
   \<and> in_window 1000 burst5
   \<and> last_notify burst5 = Some (1499, Some (sample_session ''t5''))
   \<and> (1499::int) + 500 \<le> 1999
   \<and> applied (ticks (burst5 @ [Run_timers 1999 ''2024'']) idle_subscriber) = 1
   \<and> authToken (view (ticks (burst5 @ [Run_timers 1999 ''2024'']) idle_subscriber))
       = Some ''t5''"
  using debounce_applies_only_last_event
          [of idle_subscriber 1000 burst5 1499 "Some (sample_session ''t5'')" 1999 "''2024''"]
  by (simp add: idle_subscriber_def burst5_def sample_session_def auth_change_def
        set_session_def)

end
